theory Spec2Isabelle
  imports Main "HOL-Library.AList"
begin

section \<open>The Majordomo broker of zato.zmq_.mdp.broker\<close>

text \<open>
  A shallow embedding of the class \<open>Broker\<close> of \<open>zato/zmq_/mdp/broker.py\<close>.
  A frame of a multipart message is a byte string. A reading of \<open>datetime.utcnow()\<close> is an
  integer number of seconds, so that \<open>now + timedelta(seconds=n)\<close> is \<open>now + n\<close>; every
  reading of the clock made by a method is an argument of its model, in the order in which
  the method reads it. The two dictionaries of the broker are association lists in insertion
  order, looked up with \<open>map_of\<close>, assigned with \<open>AList.update\<close> and deleted from with
  \<open>AList.delete\<close>. A method that raises returns \<open>Inl\<close> of the exception together with the
  broker as the exception leaves it; a method that returns gives \<open>Inr\<close> of the broker.
\<close>

type_synonym frame = string
type_synonym time = int

datatype error = KeyError | ValueError | IndexError | TypeError

subsection \<open>The collaborators of the package zato.zmq_.mdp\<close>

text \<open>
  Modelled from the spec: \<open>const.worker_type\<close> (the package's \<open>__init__\<close> is not among
  the sources). The spec gives a worker two classes, internal delivery (\<open>zato\<close>) and
  external transport (\<open>zmq\<close>).
\<close>

datatype worker_type = Zato | Zmq

text \<open>
  Modelled from the spec: the class \<open>WorkerData\<close>, with the fields the broker reads and
  writes. The fourth argument of its constructor is the time of registration, which is also
  the time the worker was last heard of.
\<close>

record WorkerData =
  wd_type :: worker_type
  wd_id :: frame
  service_name :: frame
  last_hb_received :: time
  last_hb_sent :: "time option"
  expires_at :: time

text \<open>
  Modelled from the spec: the class \<open>Service\<close>, a name with a queue of pending requests
  and a queue of the identities of the workers available, both empty at first.
\<close>

datatype EventWorkerRequest = EventWorkerRequest (req_body: frame) (req_sender: frame)

record Service =
  name :: frame
  pending_requests :: "EventWorkerRequest list"
  workers :: "frame list"

definition Service_init :: "frame \<Rightarrow> Service" where
  "Service_init n = \<lparr>name = n, pending_requests = [], workers = []\<rparr>"

text \<open>
  The constants of \<open>const\<close> and the two identity transforms of \<open>WorkerData\<close> are not among
  the sources either; the broker is modelled for any value of them.
\<close>

record mdp =
  ttl :: int
  v01_client :: frame
  v01_ready :: frame
  v01_reply_from_worker :: frame
  v01_heartbeat :: frame
  v01_disconnect :: frame
  wrap_worker_id :: "worker_type \<Rightarrow> frame \<Rightarrow> frame"
  unwrap_id :: "WorkerData \<Rightarrow> frame"

text \<open>
  Modelled from the spec: the constructor of \<open>WorkerData\<close>. The key of a worker in the
  registry is its class and raw address wrapped together.
\<close>

definition WorkerData_init ::
  "mdp \<Rightarrow> worker_type \<Rightarrow> frame \<Rightarrow> frame \<Rightarrow> time \<Rightarrow> time option \<Rightarrow> time \<Rightarrow> WorkerData" where
  "WorkerData_init c t i sn now hb_sent exp =
     \<lparr>wd_type = t, wd_id = wrap_worker_id c t i, service_name = sn,
      last_hb_received = now, last_hb_sent = hb_sent, expires_at = exp\<rparr>"

text \<open>
  Modelled from the spec: the \<open>serialize\<close> methods of the event classes are not among the
  sources. A message given to \<open>socket.send_multipart\<close> is recorded by the event it
  serialises and the arguments of that event.
\<close>

datatype sent_msg =
    WorkerRequest EventWorkerRequest frame
  | ClientReply frame frame frame
  | BrokerHeartbeat frame
  | BrokerDisconnect frame

datatype log_entry =
    Info_added_worker WorkerData
  | Warn_no_worker_for_hb frame
  | Print_workers "(frame \<times> WorkerData) list"

subsection \<open>The broker\<close>

text \<open>
  The dictionary \<open>self.workers\<close> is the field \<open>registry\<close>, since \<open>workers\<close> already names
  the queue of a \<open>Service\<close>. The calls of \<open>socket.send_multipart\<close> and the lines logged or
  printed are kept in the fields \<open>sent\<close> and \<open>logged\<close>, oldest first.
\<close>

record Broker =
  address :: string
  poll_interval :: int
  keep_running :: bool
  log_details :: bool
  services :: "(frame \<times> Service) list"
  registry :: "(frame \<times> WorkerData) list"
  heartbeat :: int
  heartbeat_mult :: int
  sent :: "sent_msg list"
  logged :: "log_entry list"

type_synonym result = "(error \<times> Broker) + Broker"

definition Broker_init :: "string \<Rightarrow> int \<Rightarrow> bool \<Rightarrow> int \<Rightarrow> int \<Rightarrow> Broker" where
  "Broker_init addr poll details hb hb_mult =
     \<lparr>address = addr, poll_interval = poll, keep_running = True, log_details = details,
      services = [], registry = [], heartbeat = hb, heartbeat_mult = hb_mult,
      sent = [], logged = []\<rparr>"

definition Broker_default :: Broker where
  "Broker_default = Broker_init ''tcp://*:47047'' 100 False 3 2"

definition state_of :: "result \<Rightarrow> Broker" where
  "state_of r = (case r of Inl (e, b) \<Rightarrow> b | Inr b \<Rightarrow> b)"

subsection \<open>cleanup_workers\<close>

definition expired :: "time \<Rightarrow> (frame \<times> WorkerData) list \<Rightarrow> frame list" where
  "expired now ws = map (\<lambda>kw. wd_id (snd kw)) (filter (\<lambda>kw. now \<ge> expires_at (snd kw)) ws)"

text \<open>The inner loop: \<open>service.workers.remove(item)\<close> for every service, in order.\<close>

fun remove_from_services ::
  "frame \<Rightarrow> (frame \<times> Service) list \<Rightarrow> (error \<times> (frame \<times> Service) list) + (frame \<times> Service) list" where
  "remove_from_services item [] = Inr []"
| "remove_from_services item ((k, s) # rest) =
     (if item \<in> set (workers s) then
        (case remove_from_services item rest of
           Inl (e, rest') \<Rightarrow> Inl (e, (k, s\<lparr>workers := remove1 item (workers s)\<rparr>) # rest')
         | Inr rest' \<Rightarrow> Inr ((k, s\<lparr>workers := remove1 item (workers s)\<rparr>) # rest'))
      else Inl (ValueError, (k, s) # rest))"

text \<open>The outer loop over the expired identities.\<close>

fun cleanup_loop :: "frame list \<Rightarrow> Broker \<Rightarrow> result" where
  "cleanup_loop [] b = Inr b"
| "cleanup_loop (item # items) b =
     (case map_of (registry b) item of
        None \<Rightarrow> Inl (KeyError, b)
      | Some w \<Rightarrow>
          (case remove_from_services item (services b) of
             Inl (e, ss) \<Rightarrow> Inl (e, b\<lparr>registry := AList.delete item (registry b), services := ss\<rparr>)
           | Inr ss \<Rightarrow>
               cleanup_loop items (b\<lparr>registry := AList.delete item (registry b), services := ss\<rparr>)))"

definition cleanup_workers :: "time \<Rightarrow> Broker \<Rightarrow> result" where
  "cleanup_workers now b = cleanup_loop (expired now (registry b)) b"

subsection \<open>dispatch_requests\<close>

text \<open>
  The loop of \<open>dispatch_requests\<close>. The local variable \<open>service\<close> is an object of the
  dictionary, so every pop is written back under the service's key \<open>sn\<close>. A worker of class
  \<open>zato\<close> selects \<open>send_to_worker_zato\<close>, which is called with one argument where it takes
  three: the call raises \<open>TypeError\<close> before the body, which raises too, is entered.
\<close>

function dispatch_loop :: "mdp \<Rightarrow> frame \<Rightarrow> Service \<Rightarrow> Broker \<Rightarrow> result" where
  "dispatch_loop c sn service b =
     (case pending_requests service of
        [] \<Rightarrow> Inr b
      | req # reqs \<Rightarrow>
          (case workers service of
             [] \<Rightarrow> Inr b
           | wid # wids \<Rightarrow>
               (let service' = service\<lparr>pending_requests := reqs, workers := wids\<rparr>;
                    b1 = b\<lparr>services := AList.update sn service' (services b)\<rparr>
                in case map_of (registry b1) wid of
                     None \<Rightarrow> Inl (KeyError, b1)
                   | Some worker \<Rightarrow>
                       (let b2 = b1\<lparr>registry := AList.delete wid (registry b1)\<rparr>
                        in if wd_type worker = Zato then Inl (TypeError, b2)
                           else dispatch_loop c sn service'
                                  (b2\<lparr>sent := sent b2 @ [WorkerRequest req (unwrap_id c worker)]\<rparr>)))))"
  by pat_completeness auto
termination
  by (relation "measure (\<lambda>(c, sn, service, b). length (pending_requests service))") auto

declare dispatch_loop.simps [simp del]

definition dispatch_requests :: "mdp \<Rightarrow> time \<Rightarrow> frame \<Rightarrow> Broker \<Rightarrow> result" where
  "dispatch_requests c now sn b =
     (case map_of (services b) sn of
        None \<Rightarrow> Inl (KeyError, b)
      | Some _ \<Rightarrow>
          (case cleanup_workers now b of
             Inl e \<Rightarrow> Inl e
           | Inr b' \<Rightarrow>
               (case map_of (services b') sn of
                  None \<Rightarrow> Inl (KeyError, b')
                | Some service \<Rightarrow> dispatch_loop c sn service b')))"

subsection \<open>send_disconnect_to_all and send_heartbeats\<close>




subsection \<open>The handlers of client and worker messages\<close>

definition setdefault :: "frame \<Rightarrow> (frame \<times> Service) list \<Rightarrow> (frame \<times> Service) list" where
  "setdefault sn ss = (case map_of ss sn of None \<Rightarrow> ss @ [(sn, Service_init sn)] | Some _ \<Rightarrow> ss)"

definition the_service :: "frame \<Rightarrow> (frame \<times> Service) list \<Rightarrow> Service" where
  "the_service sn ss = (case map_of ss sn of None \<Rightarrow> Service_init sn | Some s \<Rightarrow> s)"

text \<open>
  \<open>handle_client(sender_id, service_name, received_body)\<close> is called with the payload
  unpacked, so any payload that is not of two frames is a \<open>TypeError\<close>.
\<close>

definition handle_client :: "mdp \<Rightarrow> time \<Rightarrow> Broker \<Rightarrow> frame \<Rightarrow> frame list \<Rightarrow> result" where
  "handle_client c now b sender_id payload =
     (case payload of
        [sn, received_body] \<Rightarrow>
          (let service = the_service sn (services b);
               service' = service\<lparr>pending_requests :=
                             pending_requests service @ [EventWorkerRequest received_body sender_id]\<rparr>;
               b1 = b\<lparr>services := AList.update sn service' (setdefault sn (services b))\<rparr>
           in dispatch_requests c now sn b1)
      | _ \<Rightarrow> Inl (TypeError, b))"

text \<open>\<open>now\<close> is read by the handler, \<open>now'\<close> by the sweep of the dispatch that follows.\<close>

definition on_event_ready :: "mdp \<Rightarrow> time \<Rightarrow> time \<Rightarrow> Broker \<Rightarrow> frame \<Rightarrow> frame list \<Rightarrow> result" where
  "on_event_ready c now now' b worker_id data =
     (case data of
        [] \<Rightarrow> Inl (IndexError, b)
      | sn # _ \<Rightarrow>
          (let expires = now + ttl c;
               wd = WorkerData_init c Zmq worker_id sn now None expires;
               b1 = b\<lparr>registry := AList.update (wd_id wd) wd (registry b)\<rparr>;
               service = the_service sn (services b1);
               service' = service\<lparr>workers := workers service @ [wd_id wd]\<rparr>;
               b2 = b1\<lparr>services := AList.update sn service' (setdefault sn (services b1)),
                       logged := logged b1 @ [Info_added_worker wd]\<rparr>
           in dispatch_requests c now' sn b2))"

definition on_event_reply :: "Broker \<Rightarrow> frame \<Rightarrow> frame list \<Rightarrow> result" where
  "on_event_reply b worker_id data =
     (case data of
        [recipient, _, body] \<Rightarrow> Inr (b\<lparr>sent := sent b @ [ClientReply body recipient ''dummy-for-now'']\<rparr>)
      | _ \<Rightarrow> Inl (ValueError, b))"

definition on_event_heartbeat :: "mdp \<Rightarrow> time \<Rightarrow> Broker \<Rightarrow> frame \<Rightarrow> frame list \<Rightarrow> result" where
  "on_event_heartbeat c now b worker_id ignored =
     (let wrapped_id = wrap_worker_id c Zmq worker_id
      in case map_of (registry b) wrapped_id of
           None \<Rightarrow> Inr (b\<lparr>logged := logged b @ [Warn_no_worker_for_hb wrapped_id]\<rparr>)
         | Some worker \<Rightarrow>
             Inr (b\<lparr>registry := AList.update wrapped_id
                     (worker\<lparr>last_hb_received := now, expires_at := now + ttl c\<rparr>) (registry b)\<rparr>))"

definition on_event_disconnect :: "mdp \<Rightarrow> Broker \<Rightarrow> frame \<Rightarrow> frame list \<Rightarrow> result" where
  "on_event_disconnect c b worker_id data =
     (let wrapped_id = wrap_worker_id c Zmq worker_id;
          b1 = b\<lparr>logged := logged b @ [Print_workers (registry b)]\<rparr>;
          b2 = b1\<lparr>registry := AList.delete wrapped_id (registry b1),
                  services := map (\<lambda>ks. (fst ks, (snd ks)\<lparr>workers := remove1 wrapped_id (workers (snd ks))\<rparr>))
                                (services b1)\<rparr>
      in Inr (b2\<lparr>logged := logged b2 @ [Print_workers (registry b2)]\<rparr>))"

datatype handler = On_event_ready | On_event_reply | On_event_heartbeat | On_event_disconnect

text \<open>The dictionary literal \<open>handle_event_map\<close>: of two equal keys the later one stays.\<close>

definition handle_event_map :: "mdp \<Rightarrow> frame \<Rightarrow> handler option" where
  "handle_event_map c =
     [v01_ready c \<mapsto> On_event_ready, v01_reply_from_worker c \<mapsto> On_event_reply,
      v01_heartbeat c \<mapsto> On_event_heartbeat, v01_disconnect c \<mapsto> On_event_disconnect]"

definition handle_worker :: "mdp \<Rightarrow> time \<Rightarrow> time \<Rightarrow> Broker \<Rightarrow> frame \<Rightarrow> frame list \<Rightarrow> result" where
  "handle_worker c now now' b worker_id payload =
     (case payload of
        [] \<Rightarrow> Inl (IndexError, b)
      | event # data \<Rightarrow>
          (case handle_event_map c event of
             None \<Rightarrow> Inl (KeyError, b)
           | Some On_event_ready \<Rightarrow> on_event_ready c now now' b worker_id data
           | Some On_event_reply \<Rightarrow> on_event_reply b worker_id data
           | Some On_event_heartbeat \<Rightarrow> on_event_heartbeat c now b worker_id data
           | Some On_event_disconnect \<Rightarrow> on_event_disconnect c b worker_id data))"

text \<open>
  \<open>handle\<close>: \<open>msg[0]\<close> and \<open>msg[2]\<close> raise \<open>IndexError\<close> on a message of fewer than three
  frames; the payload is \<open>msg[3:]\<close>.
\<close>

definition handle :: "mdp \<Rightarrow> time \<Rightarrow> time \<Rightarrow> Broker \<Rightarrow> frame list \<Rightarrow> result" where
  "handle c now now' b msg =
     (case msg of
        sender_id # _ # originator # payload \<Rightarrow>
          (if originator = v01_client c then handle_client c now b sender_id payload
           else handle_worker c now now' b sender_id payload)
      | _ \<Rightarrow> Inl (IndexError, b))"

subsection \<open>The states the broker can be in\<close>


subsection \<open>An instance of the package's constants\<close>

text \<open>
  For evaluation on concrete messages: the frames of MDP/0.1, a time to live of six seconds,
  and a wrap that joins the class tag and the raw address with a dot.
\<close>

definition worker_type_tag :: "worker_type \<Rightarrow> frame" where
  "worker_type_tag t = (case t of Zato \<Rightarrow> ''zato'' | Zmq \<Rightarrow> ''zmq'')"

definition mdp_example :: mdp where
  "mdp_example =
     \<lparr>ttl = 6, v01_client = ''MDPC01'', v01_ready = [CHR 0x01],
      v01_reply_from_worker = [CHR 0x03], v01_heartbeat = [CHR 0x04],
      v01_disconnect = [CHR 0x05],
      wrap_worker_id = (\<lambda>t raw. worker_type_tag t @ ''.'' @ raw),
      unwrap_id = (\<lambda>w. tl (dropWhile (\<lambda>ch. ch \<noteq> CHR ''.'') (wd_id w)))\<rparr>"

definition ready_msg :: "frame \<Rightarrow> frame \<Rightarrow> frame list" where
  "ready_msg worker_id sn = [worker_id, [], ''MDPW01'', [CHR 0x01], sn]"

definition client_msg :: "frame \<Rightarrow> frame \<Rightarrow> frame \<Rightarrow> frame list" where
  "client_msg sender_id sn received_body = [sender_id, [], ''MDPC01'', sn, received_body]"

text \<open>Some states for evaluation, each the outcome of messages handled by a new broker.\<close>

definition one_worker :: Broker where
  "one_worker = state_of (handle mdp_example 0 0 Broker_default (ready_msg ''w1'' ''echo''))"

definition two_services :: Broker where
  "two_services = state_of (handle mdp_example 1 1 one_worker (client_msg ''c1'' ''calc'' ''2+2''))"

definition ready_twice :: Broker where
  "ready_twice = state_of (handle mdp_example 1 1 one_worker (ready_msg ''w1'' ''calc''))"

definition ready_twice_assigned :: Broker where
  "ready_twice_assigned =
     state_of (handle mdp_example 2 2 ready_twice (client_msg ''c1'' ''echo'' ''hi''))"

definition queues :: "Broker \<Rightarrow> (frame \<times> frame list) list" where
  "queues b = map (\<lambda>ks. (fst ks, workers (snd ks))) (services b)"

definition pending :: "Broker \<Rightarrow> (frame \<times> EventWorkerRequest list) list" where
  "pending b = map (\<lambda>ks. (fst ks, pending_requests (snd ks))) (services b)"

definition fifo_state :: Broker where
  "fifo_state = Broker_default
     \<lparr>services := [(''calc'', \<lparr>name = ''calc'',
          pending_requests = [EventWorkerRequest ''1+1'' ''c1'', EventWorkerRequest ''2+2'' ''c2''],
          workers = [''zmq.w0'', ''zmq.w1'', ''zmq.w2'']\<rparr>)],
      registry := [(''zmq.w0'', WorkerData_init mdp_example Zmq ''w0'' ''calc'' 0 None 3),
                   (''zmq.w1'', WorkerData_init mdp_example Zmq ''w1'' ''calc'' 4 None 10),
                   (''zmq.w2'', WorkerData_init mdp_example Zmq ''w2'' ''calc'' 5 None 11)]\<rparr>"

definition two_ready_two_requests :: Broker where
  "two_ready_two_requests =
     state_of (handle mdp_example 3 3
       (state_of (handle mdp_example 2 2
          (state_of (handle mdp_example 1 1
             (state_of (handle mdp_example 0 0 Broker_default (ready_msg ''w1'' ''calc'')))
             (ready_msg ''w2'' ''calc'')))
          (client_msg ''c1'' ''calc'' ''1+1'')))
       (client_msg ''c2'' ''calc'' ''2+2''))"

definition echo_queued :: Broker where
  "echo_queued = state_of (handle_client mdp_example 0 Broker_default ''c1'' [''echo'', ''hi''])"

definition double_ready :: Broker where
  "double_ready =
     state_of (handle mdp_example 2 2
       (state_of (handle mdp_example 1 1
          (state_of (handle mdp_example 0 0 Broker_default (ready_msg ''w1'' ''calc'')))
          (ready_msg ''w1'' ''calc'')))
       (ready_msg ''w2'' ''calc''))"

definition double_ready_assigned :: Broker where
  "double_ready_assigned =
     state_of (handle mdp_example 3 3 double_ready (client_msg ''c1'' ''calc'' ''1+1''))"

definition older_request :: Broker where
  "older_request = state_of (handle mdp_example 0 0 Broker_default (client_msg ''c0'' ''echo'' ''old''))"

definition older_and_new :: Broker where
  "older_and_new = state_of (handle mdp_example 1 1 older_request (client_msg ''c1'' ''echo'' ''hi''))"

definition expired_elsewhere :: Broker where
  "expired_elsewhere =
     state_of (handle mdp_example 1 1
       (state_of (handle mdp_example 0 0 Broker_default (ready_msg ''w0'' ''T'')))
       (client_msg ''c1'' ''echo'' ''hi''))"


section \<open>Properties of the broker\<close>

subsection \<open>Replies\<close>

text \<open>
  C10. Handling a reply of a worker sends the body of the reply to the client named in the
  message and changes neither the registry nor any service; the handler looks nothing up, so
  the same holds when the sender is not registered, and no heartbeat or expiry is refreshed.
  A reply that is not of three frames raises, and leaves registry and services as they were.
\<close>

theorem on_event_reply_forwards:
  "on_event_reply b worker_id [recipient, d, reply_body] =
     Inr (b\<lparr>sent := sent b @ [ClientReply reply_body recipient ''dummy-for-now'']\<rparr>)
   \<and> registry (state_of (on_event_reply b worker_id data)) = registry b
   \<and> services (state_of (on_event_reply b worker_id data)) = services b"
  by (simp add: on_event_reply_def state_of_def split: list.splits)

subsection \<open>Messages the broker does not know\<close>

text \<open>
  C5, as the claim states it, fails: a worker message whose command is none of the four is
  not logged and dropped. The command is looked up in \<open>handle_event_map\<close> without a
  default, and the lookup raises \<open>KeyError\<close>.
\<close>

theorem unknown_command_raises_KeyError:
  "[CHR 0x09] \<notin> {v01_ready mdp_example, v01_reply_from_worker mdp_example,
                  v01_heartbeat mdp_example, v01_disconnect mdp_example}
   \<and> handle_worker mdp_example 0 0 Broker_default ''w1'' [[CHR 0x09]] =
       Inl (KeyError, Broker_default)"
  by (simp add: handle_worker_def handle_event_map_def mdp_example_def)

text \<open>
  C5, amended. For every worker message whose command frame is not one of READY, REPLY,
  HEARTBEAT and DISCONNECT, \<open>handle_worker\<close> raises \<open>KeyError\<close> before any handler runs; the
  state of the broker is unchanged, nothing is logged, and \<open>handle\<close> passes the exception on.
\<close>

theorem handle_worker_unknown_command:
  "event \<notin> {v01_ready c, v01_reply_from_worker c, v01_heartbeat c, v01_disconnect c} \<Longrightarrow>
   handle_worker c now now' b worker_id (event # data) = Inl (KeyError, b)
   \<and> (originator \<noteq> v01_client c \<longrightarrow>
        handle c now now' b (worker_id # d # originator # event # data) = Inl (KeyError, b))"
  by (simp add: handle_def handle_worker_def handle_event_map_def)

theorem handle_worker_unknown_command_witness:
  "[CHR 0x02] \<notin> {v01_ready mdp_example, v01_reply_from_worker mdp_example,
                  v01_heartbeat mdp_example, v01_disconnect mdp_example}
   \<and> ''MDPW01'' \<noteq> v01_client mdp_example
   \<and> handle_worker mdp_example 5 5 Broker_default ''w2'' [[CHR 0x02], ''x''] =
       Inl (KeyError, Broker_default)
   \<and> handle mdp_example 5 5 Broker_default [''w2'', [], ''MDPW01'', [CHR 0x02], ''x''] =
       Inl (KeyError, Broker_default)"
proof -
  have h: "[CHR 0x02] \<notin> {v01_ready mdp_example, v01_reply_from_worker mdp_example,
                  v01_heartbeat mdp_example, v01_disconnect mdp_example}"
    by (simp add: mdp_example_def)
  have o: "''MDPW01'' \<noteq> v01_client mdp_example"
    by (simp add: mdp_example_def)
  from handle_worker_unknown_command
         [OF h, of 5 5 Broker_default "''w2''" "[''x'']" "''MDPW01''" "[]"] h o
  show ?thesis by simp
qed

text \<open>
  C7, as the claim states it, fails: \<open>handle\<close> compares the originator with the client tag
  only, so a message with any other tag goes to the worker handler. Here a message tagged
  \<open>BOGUS\<close> registers a worker with a broker that had none.
\<close>

theorem handle_unknown_originator_routed:
  "''BOGUS'' \<noteq> v01_client mdp_example
   \<and> handle mdp_example 0 0 Broker_default [''w1'', [], ''BOGUS'', [CHR 0x01], ''echo'']
       = handle_worker mdp_example 0 0 Broker_default ''w1'' [[CHR 0x01], ''echo'']
   \<and> map fst (registry (state_of (handle mdp_example 0 0 Broker_default
         [''w1'', [], ''BOGUS'', [CHR 0x01], ''echo'']))) = [''zmq.w1'']
   \<and> registry Broker_default = []"
  by code_simp

text \<open>
  C7, amended. Every inbound message of at least three frames whose originator tag is not
  the client tag, be it the worker tag or any other value, is handled by the worker handler
  on its sender and payload, with whatever that handler does to the state or raises.
\<close>

theorem handle_non_client_is_worker:
  "originator \<noteq> v01_client c \<Longrightarrow>
   handle c now now' b (sender_id # d # originator # payload) =
     handle_worker c now now' b sender_id payload"
  by (simp add: handle_def)

theorem handle_non_client_is_worker_witness:
  "''XYZ'' \<noteq> v01_client mdp_example
   \<and> handle mdp_example 3 4 Broker_default [''w7'', [], ''XYZ'', [CHR 0x04]] =
       handle_worker mdp_example 3 4 Broker_default ''w7'' [[CHR 0x04]]"
proof -
  have h: "''XYZ'' \<noteq> v01_client mdp_example"
    by (simp add: mdp_example_def)
  from handle_non_client_is_worker [OF h] h show ?thesis by blast
qed

subsection \<open>Heartbeats of workers\<close>

text \<open>
  C6. A heartbeat of a worker whose wrapped identity is not in the registry returns without
  raising, and the broker it leaves differs from the one it found by one warning logged. A
  heartbeat of a registered worker sets that worker's \<open>last_hb_received\<close> to the time of
  the event and its \<open>expires_at\<close> to that time plus the time to live, and changes nothing
  else.
\<close>

theorem on_event_heartbeat_unknown_or_known:
  "(map_of (registry b) (wrap_worker_id c Zmq worker_id) = None \<longrightarrow>
      on_event_heartbeat c now b worker_id ign =
        Inr (b\<lparr>logged := logged b @ [Warn_no_worker_for_hb (wrap_worker_id c Zmq worker_id)]\<rparr>))
   \<and> (\<forall>w. map_of (registry b) (wrap_worker_id c Zmq worker_id) = Some w \<longrightarrow>
        (\<exists>b'. on_event_heartbeat c now b worker_id ign = Inr b'
           \<and> map_of (registry b') =
               (map_of (registry b))(wrap_worker_id c Zmq worker_id \<mapsto>
                  w\<lparr>last_hb_received := now, expires_at := now + ttl c\<rparr>)
           \<and> map fst (registry b') = map fst (registry b)
           \<and> services b' = services b \<and> sent b' = sent b \<and> logged b' = logged b))"
  by (auto simp add: on_event_heartbeat_def Let_def update_conv' update_keys
        map_of_eq_None_iff [symmetric])

theorem on_event_heartbeat_unknown_or_known_witness:
  "map_of (registry Broker_default) (wrap_worker_id mdp_example Zmq ''w9'') = None
   \<and> on_event_heartbeat mdp_example 5 Broker_default ''w9'' [] =
        Inr (Broker_default\<lparr>logged := [Warn_no_worker_for_hb ''zmq.w9'']\<rparr>)
   \<and> map_of (registry one_worker) (wrap_worker_id mdp_example Zmq ''w1'') =
        Some \<lparr>wd_type = Zmq, wd_id = ''zmq.w1'', service_name = ''echo'',
              last_hb_received = 0, last_hb_sent = None, expires_at = 6\<rparr>
   \<and> map_of (registry (state_of (on_event_heartbeat mdp_example 4 one_worker ''w1'' [])))
        ''zmq.w1'' =
        Some \<lparr>wd_type = Zmq, wd_id = ''zmq.w1'', service_name = ''echo'',
              last_hb_received = 4, last_hb_sent = None, expires_at = 10\<rparr>"
proof -
  have u: "map_of (registry Broker_default) (wrap_worker_id mdp_example Zmq ''w9'') = None"
    by code_simp
  have k: "map_of (registry one_worker) (wrap_worker_id mdp_example Zmq ''w1'') =
        Some \<lparr>wd_type = Zmq, wd_id = ''zmq.w1'', service_name = ''echo'',
              last_hb_received = 0, last_hb_sent = None, expires_at = 6\<rparr>"
    by code_simp
  have w: "wrap_worker_id mdp_example Zmq ''w9'' = ''zmq.w9''"
          "wrap_worker_id mdp_example Zmq ''w1'' = ''zmq.w1''" "ttl mdp_example = 6"
    by (simp_all add: mdp_example_def worker_type_tag_def)
  have l: "logged Broker_default = []"
    by (simp add: Broker_default_def Broker_init_def)
  from on_event_heartbeat_unknown_or_known [of Broker_default mdp_example "''w9''" 5 "[]"] u w l
  have a: "on_event_heartbeat mdp_example 5 Broker_default ''w9'' [] =
        Inr (Broker_default\<lparr>logged := [Warn_no_worker_for_hb ''zmq.w9'']\<rparr>)"
    by simp
  from on_event_heartbeat_unknown_or_known [of one_worker mdp_example "''w1''" 4 "[]"] k
  obtain b' where b': "on_event_heartbeat mdp_example 4 one_worker ''w1'' [] = Inr b'"
    "map_of (registry b') =
       (map_of (registry one_worker))(wrap_worker_id mdp_example Zmq ''w1'' \<mapsto>
        \<lparr>wd_type = Zmq, wd_id = ''zmq.w1'', service_name = ''echo'',
              last_hb_received = 0, last_hb_sent = None, expires_at = 6\<rparr>
          \<lparr>last_hb_received := 4, expires_at := 4 + ttl mdp_example\<rparr>)"
    by blast
  then have "map_of (registry (state_of (on_event_heartbeat mdp_example 4 one_worker ''w1'' [])))
        ''zmq.w1'' =
        Some \<lparr>wd_type = Zmq, wd_id = ''zmq.w1'', service_name = ''echo'',
              last_hb_received = 4, last_hb_sent = None, expires_at = 10\<rparr>"
    by (simp add: state_of_def w)
  with u k a show ?thesis by blast
qed

subsection \<open>The sweep of expired workers\<close>

text \<open>
  C2 fails on the code. \<open>cleanup_workers\<close> calls \<open>service.workers.remove(item)\<close> on every
  service, and \<open>remove\<close> raises \<open>ValueError\<close> on a list that does not hold the item. Worker
  \<open>w1\<close> registers for \<open>echo\<close> at time 0 and expires at 6; a client asks for \<open>calc\<close> at
  time 1. The sweep at time 7 deletes the worker from the registry and from the queue of
  \<open>echo\<close>, then raises at \<open>calc\<close>.
\<close>

theorem cleanup_workers_raises_on_second_service:
  "map_of (registry two_services) ''zmq.w1'' =
     Some \<lparr>wd_type = Zmq, wd_id = ''zmq.w1'', service_name = ''echo'',
           last_hb_received = 0, last_hb_sent = None, expires_at = 7 - 1\<rparr>
   \<and> queues two_services = [(''echo'', [''zmq.w1'']), (''calc'', [])]
   \<and> cleanup_workers 7 two_services =
       Inl (ValueError, two_services\<lparr>registry := [],
              services := [(''echo'', Service_init ''echo''),
                           (''calc'', (Service_init ''calc'')
                              \<lparr>pending_requests := [EventWorkerRequest ''2+2'' ''c1'']\<rparr>)]\<rparr>)"
  by code_simp

subsection \<open>A worker that is ready twice\<close>

text \<open>
  C3 fails on the code. \<open>on_event_ready\<close> appends the identity to the queue of the service
  named, and takes it out of no other queue. Worker \<open>w1\<close> is ready for \<open>echo\<close> and then for
  \<open>calc\<close>: its identity is in both queues. A request for \<open>echo\<close> is assigned to it, which
  removes it from the registry and from the queue of \<open>echo\<close>; it stays in the queue of
  \<open>calc\<close>. The next request for \<open>calc\<close> pops it there, does not find it in the registry and
  raises \<open>KeyError\<close>, the request already taken off its queue.
\<close>

theorem ready_twice_in_two_queues:
  "queues ready_twice = [(''echo'', [''zmq.w1'']), (''calc'', [''zmq.w1''])]
   \<and> map fst (registry ready_twice) = [''zmq.w1'']
   \<and> sent ready_twice_assigned = [WorkerRequest (EventWorkerRequest ''hi'' ''c1'') ''w1'']
   \<and> registry ready_twice_assigned = []
   \<and> queues ready_twice_assigned = [(''echo'', []), (''calc'', [''zmq.w1''])]
   \<and> (case handle mdp_example 3 3 ready_twice_assigned (client_msg ''c2'' ''calc'' ''2+2'') of
         Inl (e, b) \<Rightarrow> e = KeyError \<and> pending b = [(''echo'', []), (''calc'', [])]
       | Inr b \<Rightarrow> False)"
  by code_simp

subsection \<open>The time to live\<close>

text \<open>
  C4 fails on the code. Both handlers add \<open>const.ttl\<close> to the time of the event; the options
  \<open>heartbeat\<close> and \<open>heartbeat_mult\<close> of the broker are not read. A broker made with a
  heartbeat of 10 seconds and a multiplier of 3 gives a worker that is ready at time 100 the
  expiry 100 + \<open>const.ttl\<close>, and at its heartbeat at time 103 the expiry 103 + \<open>const.ttl\<close>,
  where the claim has 130 and 133. The broker made with the default options, 3 and 2, gives
  the same expiry: whatever the constant is, one of the two brokers departs from the claim.
\<close>

theorem ttl_not_heartbeat_times_mult:
  "heartbeat (Broker_init ''tcp://*:47047'' 100 False 10 3) *
     heartbeat_mult (Broker_init ''tcp://*:47047'' 100 False 10 3) = 30
   \<and> map (\<lambda>kw. expires_at (snd kw))
        (registry (state_of (handle mdp_example 100 100
           (Broker_init ''tcp://*:47047'' 100 False 10 3) (ready_msg ''w1'' ''echo'')))) =
       [100 + ttl mdp_example]
   \<and> map (\<lambda>kw. expires_at (snd kw))
        (registry (state_of (handle mdp_example 103 103
           (state_of (handle mdp_example 100 100
              (Broker_init ''tcp://*:47047'' 100 False 10 3) (ready_msg ''w1'' ''echo'')))
           [''w1'', [], ''MDPW01'', [CHR 0x04]]))) =
       [103 + ttl mdp_example]
   \<and> heartbeat Broker_default * heartbeat_mult Broker_default = 6
   \<and> map (\<lambda>kw. expires_at (snd kw))
        (registry (state_of (handle mdp_example 100 100 Broker_default
           (ready_msg ''w1'' ''echo'')))) =
       [100 + ttl mdp_example]
   \<and> ttl mdp_example = 6"
  by code_simp

subsection \<open>The class of the workers registered\<close>

lemma set_update_subset: "set (AList.update k v al) \<subseteq> insert (k, v) (set al)"
  by (induction al) auto


























subsection \<open>Dispatch in order of arrival\<close>

text \<open>
  C1 fails on the code. \<open>dispatch_requests\<close> does pop the oldest request and the worker
  that has waited longest together, but the worker it pops need not be registered any more.
  Worker \<open>w1\<close> is ready for \<open>calc\<close> twice and worker \<open>w2\<close> once, so the queue of \<open>calc\<close>
  holds \<open>w1\<close>, \<open>w1\<close>, \<open>w2\<close> and the registry \<open>w1\<close> and \<open>w2\<close>. The first request goes to
  \<open>w1\<close>, which leaves the registry. The second request is popped with the second entry of
  \<open>w1\<close>, \<open>self.workers.pop\<close> raises \<open>KeyError\<close>, and the request is gone from its queue
  unsent, while \<open>w2\<close> is registered and waiting.
\<close>

theorem second_request_lost_after_double_ready:
  "queues double_ready = [(''calc'', [''zmq.w1'', ''zmq.w1'', ''zmq.w2''])]
   \<and> map fst (registry double_ready) = [''zmq.w1'', ''zmq.w2'']
   \<and> sent double_ready_assigned = [WorkerRequest (EventWorkerRequest ''1+1'' ''c1'') ''w1'']
   \<and> queues double_ready_assigned = [(''calc'', [''zmq.w1'', ''zmq.w2''])]
   \<and> map fst (registry double_ready_assigned) = [''zmq.w2'']
   \<and> (case handle mdp_example 4 4 double_ready_assigned (client_msg ''c2'' ''calc'' ''2+2'') of
         Inl (e, b) \<Rightarrow> e = KeyError \<and> sent b = sent double_ready_assigned
            \<and> pending b = [(''calc'', [])] \<and> queues b = [(''calc'', [''zmq.w2''])]
            \<and> map fst (registry b) = [''zmq.w2'']
       | Inr b \<Rightarrow> False)"
  by code_simp

lemma remove_from_services_keys:
  "remove_from_services item ss = Inr ss' \<Longrightarrow> map fst ss' = map fst ss"
  by (induction ss arbitrary: ss') (auto split: if_splits sum.splits)

lemma cleanup_loop_keys_sent:
  "cleanup_loop items b = Inr b' \<Longrightarrow>
   map fst (services b') = map fst (services b) \<and> sent b' = sent b"
proof (induction items arbitrary: b)
  case Nil
  then show ?case by simp
next
  case (Cons item items)
  from Cons.prems obtain w ss where
    "map_of (registry b) item = Some w" and
    ss: "remove_from_services item (services b) = Inr ss" and
    rest: "cleanup_loop items (b\<lparr>registry := AList.delete item (registry b), services := ss\<rparr>) = Inr b'"
    by (auto split: option.splits sum.splits)
  from Cons.IH [OF rest] remove_from_services_keys [OF ss] show ?case
    by simp
qed

lemma dispatch_loop_fifo:
  assumes "map_of (services b) sn = Some service"
    and "map (map_of (registry b)) (workers service) = map Some ws"
    and "distinct (workers service)"
    and "list_all (\<lambda>w. wd_type w = Zmq) ws"
  shows "\<exists>b'. dispatch_loop c sn service b = Inr b'
     \<and> sent b' = sent b @ map (\<lambda>(req, w). WorkerRequest req (unwrap_id c w))
                            (zip (pending_requests service) ws)
     \<and> map_of (services b') =
          (map_of (services b))(sn \<mapsto> service
             \<lparr>pending_requests := drop (length ws) (pending_requests service),
              workers := drop (length (pending_requests service)) (workers service)\<rparr>)
     \<and> map_of (registry b') =
          map_of (registry b) |` (- set (take (length (pending_requests service)) (workers service)))"
  using assms
proof (induction "pending_requests service" arbitrary: service b ws)
  case Nil
  from Nil.hyps [symmetric] Nil.prems(1) show ?case
    by (subst dispatch_loop.simps) (auto simp add: fun_upd_idem_iff)
next
  case (Cons req reqs)
  note reqs = Cons.hyps(2) [symmetric]
  show ?case
  proof (cases "workers service")
    case Nil
    with Cons.prems(2) have "ws = []" by simp
    with Nil reqs Cons.prems(1) show ?thesis
      by (subst dispatch_loop.simps) (auto simp add: fun_upd_idem_iff)
  next
    case wids: (Cons wid wids)
    with Cons.prems(2) obtain w ws' where ws: "ws = w # ws'"
      and w: "map_of (registry b) wid = Some w"
      and ws': "map (map_of (registry b)) wids = map Some ws'"
      by (cases ws) auto
    from Cons.prems(4) ws have zmq: "wd_type w = Zmq" and zmqs: "list_all (\<lambda>w. wd_type w = Zmq) ws'"
      by simp_all
    from Cons.prems(3) wids have nin: "wid \<notin> set wids" and dist: "distinct wids"
      by simp_all
    let ?s = "service\<lparr>pending_requests := reqs, workers := wids\<rparr>"
    let ?b = "b\<lparr>services := AList.update sn ?s (services b),
                 registry := AList.delete wid (registry b),
                 sent := sent b @ [WorkerRequest req (unwrap_id c w)]\<rparr>"
    have step: "dispatch_loop c sn service b = dispatch_loop c sn ?s ?b"
      using reqs wids w zmq by (subst dispatch_loop.simps) (simp add: Let_def)
    have p1: "reqs = pending_requests ?s" by simp
    have p2: "map_of (services ?b) sn = Some ?s" by (simp add: update_conv')
    have p3: "map (map_of (registry ?b)) (workers ?s) = map Some ws'"
      using ws' nin by (auto simp add: delete_conv')
    have p4: "distinct (workers ?s)" using dist by simp
    from Cons.hyps(1) [OF p1 p2 p3 p4 zmqs]
    obtain b' where b': "dispatch_loop c sn ?s ?b = Inr b'"
      "sent b' = sent ?b @ map (\<lambda>(req, w). WorkerRequest req (unwrap_id c w)) (zip (pending_requests ?s) ws')"
      "map_of (services b') = (map_of (services ?b))(sn \<mapsto> ?s
             \<lparr>pending_requests := drop (length ws') (pending_requests ?s),
              workers := drop (length (pending_requests ?s)) (workers ?s)\<rparr>)"
      "map_of (registry b') = map_of (registry ?b) |` (- set (take (length (pending_requests ?s)) (workers ?s)))"
      by blast
    have r: "map_of (registry b') =
          map_of (registry b) |` (- set (take (length (pending_requests service)) (workers service)))"
      using b'(4) reqs wids by (auto simp add: delete_conv' restrict_map_def fun_eq_iff)
    from step b'(1,2,3) r reqs wids ws show ?thesis
      by (simp add: update_conv')
  qed
qed

text \<open>
  What \<open>dispatch_requests\<close> does when neither defect strikes: let the sweep complete and
  leave the service with the queue \<open>workers service\<close>, whose identities are distinct and
  stand in the registry for the workers \<open>ws\<close>. Then the call returns, and what it has sent
  is the oldest request to the worker that was ready first, the second to the second, and so
  on until one queue is empty. What is left of each queue is what was not paired, and the
  workers paired are out of the registry.
\<close>

lemma dispatch_requests_fifo:
  assumes "cleanup_workers now b = Inr b1"
    and "map_of (services b1) sn = Some service"
    and "map (map_of (registry b1)) (workers service) = map Some ws"
    and "distinct (workers service)"
    and "list_all (\<lambda>w. wd_type w = Zmq) ws"
  shows "\<exists>b'. dispatch_requests c now sn b = Inr b'
     \<and> sent b' = sent b @ map (\<lambda>(req, w). WorkerRequest req (unwrap_id c w))
                            (zip (pending_requests service) ws)
     \<and> map_of (services b') =
          (map_of (services b1))(sn \<mapsto> service
             \<lparr>pending_requests := drop (length ws) (pending_requests service),
              workers := drop (length (pending_requests service)) (workers service)\<rparr>)
     \<and> map_of (registry b') =
          map_of (registry b1) |` (- set (take (length (pending_requests service)) (workers service)))"
proof -
  from assms(1) have ks: "map fst (services b1) = map fst (services b)" and snt: "sent b1 = sent b"
    by (simp_all add: cleanup_workers_def cleanup_loop_keys_sent)
  from assms(2) have "(sn, service) \<in> set (services b1)"
    by (rule map_of_SomeD)
  then have "sn \<in> fst ` set (services b1)"
    by (rule image_eqI [rotated]) simp
  then have "sn \<in> set (map fst (services b1))" by simp
  with ks have "sn \<in> fst ` set (services b)" by simp
  then have "map_of (services b) sn \<noteq> None"
    by (simp add: map_of_eq_None_iff)
  then obtain s0 where s0: "map_of (services b) sn = Some s0"
    by auto
  from s0 assms(1,2) have "dispatch_requests c now sn b = dispatch_loop c sn service b1"
    by (simp add: dispatch_requests_def)
  with dispatch_loop_fifo [OF assms(2-5), of c] snt show ?thesis
    by auto
qed

lemma dispatch_requests_fifo_example:
  "cleanup_workers 5 fifo_state =
     Inr (fifo_state\<lparr>services := [(''calc'', \<lparr>name = ''calc'',
          pending_requests = [EventWorkerRequest ''1+1'' ''c1'', EventWorkerRequest ''2+2'' ''c2''],
          workers = [''zmq.w1'', ''zmq.w2'']\<rparr>)],
      registry := [(''zmq.w1'', WorkerData_init mdp_example Zmq ''w1'' ''calc'' 4 None 10),
                   (''zmq.w2'', WorkerData_init mdp_example Zmq ''w2'' ''calc'' 5 None 11)]\<rparr>)
   \<and> sent (state_of (dispatch_requests mdp_example 5 ''calc'' fifo_state)) =
       [WorkerRequest (EventWorkerRequest ''1+1'' ''c1'') ''w1'',
        WorkerRequest (EventWorkerRequest ''2+2'' ''c2'') ''w2'']
   \<and> sent two_ready_two_requests =
       [WorkerRequest (EventWorkerRequest ''1+1'' ''c1'') ''w1'',
        WorkerRequest (EventWorkerRequest ''2+2'' ''c2'') ''w2'']"
proof -
  let ?s = "\<lparr>name = ''calc'',
          pending_requests = [EventWorkerRequest ''1+1'' ''c1'', EventWorkerRequest ''2+2'' ''c2''],
          workers = [''zmq.w1'', ''zmq.w2'']\<rparr>"
  let ?ws = "[WorkerData_init mdp_example Zmq ''w1'' ''calc'' 4 None 10,
              WorkerData_init mdp_example Zmq ''w2'' ''calc'' 5 None 11]"
  let ?b1 = "fifo_state\<lparr>services := [(''calc'', ?s)],
      registry := [(''zmq.w1'', WorkerData_init mdp_example Zmq ''w1'' ''calc'' 4 None 10),
                   (''zmq.w2'', WorkerData_init mdp_example Zmq ''w2'' ''calc'' 5 None 11)]\<rparr>"
  have h1: "cleanup_workers 5 fifo_state = Inr ?b1"
    by code_simp
  have h2: "map_of (services ?b1) ''calc'' = Some ?s"
    by simp
  have h3: "map (map_of (registry ?b1)) (workers ?s) = map Some ?ws"
    by simp
  have h4: "distinct (workers ?s)"
    by simp
  have h5: "list_all (\<lambda>w. wd_type w = Zmq) ?ws"
    by (simp add: WorkerData_init_def)
  have u: "unwrap_id mdp_example (WorkerData_init mdp_example Zmq ''w1'' ''calc'' 4 None 10) = ''w1''"
    "unwrap_id mdp_example (WorkerData_init mdp_example Zmq ''w2'' ''calc'' 5 None 11) = ''w2''"
    by code_simp+
  have s: "sent fifo_state = []"
    by code_simp
  from dispatch_requests_fifo [OF h1 h2 h3 h4 h5, of mdp_example]
  have "sent (state_of (dispatch_requests mdp_example 5 ''calc'' fifo_state)) =
       [WorkerRequest (EventWorkerRequest ''1+1'' ''c1'') ''w1'',
        WorkerRequest (EventWorkerRequest ''2+2'' ''c2'') ''w2'']"
    by (auto simp add: state_of_def u s)
  moreover have "sent two_ready_two_requests =
       [WorkerRequest (EventWorkerRequest ''1+1'' ''c1'') ''w1'',
        WorkerRequest (EventWorkerRequest ''2+2'' ''c2'') ''w2'']"
    by code_simp
  ultimately show ?thesis using h1 by blast
qed

subsection \<open>A request that waits for a worker\<close>

lemma expired_Nil:
  "\<forall>kw \<in> set ws. now < expires_at (snd kw) \<Longrightarrow> expired now ws = []"
  by (auto simp add: expired_def filter_empty_conv)

lemma cleanup_workers_none_expired:
  "\<forall>kw \<in> set (registry b). now < expires_at (snd kw) \<Longrightarrow> cleanup_workers now b = Inr b"
  by (simp add: cleanup_workers_def expired_Nil)

lemma the_service_map_of:
  "map_of ss sn = Some s \<Longrightarrow> the_service sn ss = s"
  by (simp add: the_service_def)

text \<open>
  C8, as the claim states it, fails in two ways. A broker with no worker holds an older
  request of client \<open>c0\<close> for \<open>echo\<close>; the request of \<open>c1\<close> joins the queue behind it, and
  the worker that is ready next is sent the older body, which leaves the request of \<open>c1\<close>
  pending. In another broker worker \<open>w0\<close> is registered for service \<open>T\<close> and has expired
  when \<open>w1\<close> is ready for \<open>echo\<close>: the sweep of that dispatch raises \<open>ValueError\<close>, and
  the request queued for \<open>echo\<close> is not sent.
\<close>

theorem ready_serves_oldest_or_raises:
  "queues older_request = [(''echo'', [])]
   \<and> registry older_request = []
   \<and> handle mdp_example 1 1 older_request (client_msg ''c1'' ''echo'' ''hi'') = Inr older_and_new
   \<and> pending older_and_new =
       [(''echo'', [EventWorkerRequest ''old'' ''c0'', EventWorkerRequest ''hi'' ''c1''])]
   \<and> sent (state_of (handle mdp_example 2 2 older_and_new (ready_msg ''w1'' ''echo''))) =
       [WorkerRequest (EventWorkerRequest ''old'' ''c0'') ''w1'']
   \<and> pending (state_of (handle mdp_example 2 2 older_and_new (ready_msg ''w1'' ''echo''))) =
       [(''echo'', [EventWorkerRequest ''hi'' ''c1''])]
   \<and> queues expired_elsewhere = [(''T'', [''zmq.w0'']), (''echo'', [])]
   \<and> pending expired_elsewhere = [(''T'', []), (''echo'', [EventWorkerRequest ''hi'' ''c1''])]
   \<and> (case handle mdp_example 7 7 expired_elsewhere (ready_msg ''w1'' ''echo'') of
         Inl (e, b) \<Rightarrow> e = ValueError \<and> sent b = []
            \<and> pending b = [(''T'', []), (''echo'', [EventWorkerRequest ''hi'' ''c1''])]
       | Inr b \<Rightarrow> False)"
  by code_simp

text \<open>
  A request of a client joins the tail of the pending queue, and a worker that is ready the
  tail of the queue of workers. With a worker expired and none available for the service,
  \<open>handle_client\<close> raises.
\<close>

lemma remove_from_services_raises:
  "map_of ss sn = Some s \<Longrightarrow> item \<notin> set (workers s) \<Longrightarrow>
   \<exists>e ss'. remove_from_services item ss = Inl (e, ss')"
proof (induction ss)
  case Nil
  then show ?case by simp
next
  case (Cons ks ss)
  obtain k s' where ks: "ks = (k, s')" by (cases ks)
  show ?case
  proof (cases "item \<in> set (workers s')")
    case False
    with ks show ?thesis by simp
  next
    case True
    with Cons.prems ks have "map_of ss sn = Some s"
      by (auto split: if_splits)
    from Cons.IH [OF this Cons.prems(2)] obtain e ss' where
      "remove_from_services item ss = Inl (e, ss')" by blast
    with True ks show ?thesis by simp
  qed
qed

lemma handle_client_raises_when_expired:
  assumes "workers (the_service sn (services b)) = []"
    and "expired now (registry b) \<noteq> []"
  shows "\<exists>e b'. handle_client c now b sender_id [sn, received_body] = Inl (e, b')"
proof -
  let ?s1 = "(the_service sn (services b))\<lparr>pending_requests :=
      pending_requests (the_service sn (services b)) @ [EventWorkerRequest received_body sender_id]\<rparr>"
  let ?b1 = "b\<lparr>services := AList.update sn ?s1 (setdefault sn (services b))\<rparr>"
  have s1: "map_of (services ?b1) sn = Some ?s1"
    by (simp add: update_conv')
  from assms(2) obtain item items where ex: "expired now (registry ?b1) = item # items"
    by (cases "expired now (registry b)") auto
  have "item \<notin> set (workers ?s1)"
    using assms(1) by simp
  from remove_from_services_raises [OF s1 this] obtain e ss' where
    "remove_from_services item (services ?b1) = Inl (e, ss')" by blast
  then have "\<exists>e b'. cleanup_loop (item # items) ?b1 = Inl (e, b')"
    by (cases "map_of (registry ?b1) item") auto
  with ex have "\<exists>e b'. cleanup_workers now ?b1 = Inl (e, b')"
    by (simp add: cleanup_workers_def)
  with s1 show ?thesis
    by (auto simp add: handle_client_def dispatch_requests_def Let_def)
qed

lemma on_event_ready_appends_worker:
  assumes "pending_requests (the_service sn (services b)) = []"
    and "\<forall>kw \<in> set (registry b). t' < expires_at (snd kw)"
    and "t' < t + ttl c"
  shows "\<exists>b'. on_event_ready c t t' b worker_id [sn] = Inr b'
     \<and> workers (the_service sn (services b')) =
         workers (the_service sn (services b)) @ [wrap_worker_id c Zmq worker_id]
     \<and> sent b' = sent b"
proof -
  let ?wd = "WorkerData_init c Zmq worker_id sn t None (t + ttl c)"
  let ?s = "(the_service sn (services b))\<lparr>workers :=
      workers (the_service sn (services b)) @ [wd_id ?wd]\<rparr>"
  let ?b = "b\<lparr>registry := AList.update (wd_id ?wd) ?wd (registry b),
               services := AList.update sn ?s (setdefault sn (services b)),
               logged := logged b @ [Info_added_worker ?wd]\<rparr>"
  have s: "map_of (services ?b) sn = Some ?s"
    by (simp add: update_conv')
  have "\<forall>kw \<in> set (registry ?b). t' < expires_at (snd kw)"
    using assms(2,3) set_update_subset [of "wd_id ?wd" ?wd "registry b"]
    by (auto simp add: WorkerData_init_def)
  then have cl: "cleanup_workers t' ?b = Inr ?b"
    by (rule cleanup_workers_none_expired)
  have l: "dispatch_loop c sn ?s ?b = Inr ?b"
    using assms(1) by (subst dispatch_loop.simps) simp
  have "on_event_ready c t t' b worker_id [sn] = dispatch_requests c t' sn ?b"
    by (simp add: on_event_ready_def Let_def)
  also have "\<dots> = Inr ?b"
    using s cl l by (simp add: dispatch_requests_def)
  finally show ?thesis
    using s by (simp add: the_service_map_of WorkerData_init_def)
qed

text \<open>
  C8, amended. Take a service with no worker available (the service may not exist yet), and
  a registry in which no worker has expired at the two sweeps. A request of a client for the
  service is appended to its pending queue and nothing is sent. When a worker then is ready
  for the service, and the sweep of that dispatch reads the clock before the new worker
  expires, the oldest pending request of the service is sent to that worker and taken off
  the queue, and the worker is not left in the queue. If no request was pending before, the
  request sent is the one just queued and the queue is left empty.
\<close>

theorem request_waits_for_ready_worker:
  assumes "workers (the_service sn (services b)) = []"
    and "\<forall>kw \<in> set (registry b). now < expires_at (snd kw) \<and> t' < expires_at (snd kw)"
    and "t' < t + ttl c"
  shows "\<exists>b1 b2. handle_client c now b sender_id [sn, received_body] = Inr b1
       \<and> sent b1 = sent b \<and> registry b1 = registry b
       \<and> pending_requests (the_service sn (services b1)) =
           pending_requests (the_service sn (services b)) @
             [EventWorkerRequest received_body sender_id]
       \<and> on_event_ready c t t' b1 worker_id [sn] = Inr b2
       \<and> sent b2 = sent b @
           [WorkerRequest (hd (pending_requests (the_service sn (services b1))))
              (unwrap_id c (WorkerData_init c Zmq worker_id sn t None (t + ttl c)))]
       \<and> pending_requests (the_service sn (services b2)) =
           tl (pending_requests (the_service sn (services b1)))
       \<and> workers (the_service sn (services b2)) = []
       \<and> (pending_requests (the_service sn (services b)) = [] \<longrightarrow>
            sent b2 = sent b @
              [WorkerRequest (EventWorkerRequest received_body sender_id)
                 (unwrap_id c (WorkerData_init c Zmq worker_id sn t None (t + ttl c)))]
            \<and> pending_requests (the_service sn (services b2)) = [])"
proof -
  let ?req = "EventWorkerRequest received_body sender_id"
  let ?ps = "pending_requests (the_service sn (services b)) @ [?req]"
  let ?s1 = "(the_service sn (services b))\<lparr>pending_requests := ?ps\<rparr>"
  let ?b1 = "b\<lparr>services := AList.update sn ?s1 (setdefault sn (services b))\<rparr>"
  have s1: "map_of (services ?b1) sn = Some ?s1"
    by (simp add: update_conv')
  have c1: "cleanup_workers now ?b1 = Inr ?b1"
    using assms(2) by (intro cleanup_workers_none_expired) simp
  have l1: "dispatch_loop c sn ?s1 ?b1 = Inr ?b1"
    using assms(1) by (subst dispatch_loop.simps) (simp split: list.splits)
  have hc: "handle_client c now b sender_id [sn, received_body] = Inr ?b1"
    using s1 c1 l1 by (simp add: handle_client_def dispatch_requests_def Let_def)
  let ?wd = "WorkerData_init c Zmq worker_id sn t None (t + ttl c)"
  let ?s2 = "?s1\<lparr>workers := [wd_id ?wd]\<rparr>"
  let ?b2 = "?b1\<lparr>registry := AList.update (wd_id ?wd) ?wd (registry b),
                 services := AList.update sn ?s2 (setdefault sn (services ?b1)),
                 logged := logged b @ [Info_added_worker ?wd]\<rparr>"
  have s2: "map_of (services ?b2) sn = Some ?s2"
    by (simp add: update_conv')
  have "\<forall>kw \<in> set (registry ?b2). t' < expires_at (snd kw)"
    using assms(2,3) set_update_subset [of "wd_id ?wd" ?wd "registry b"]
    by (auto simp add: WorkerData_init_def)
  then have c2: "cleanup_workers t' ?b2 = Inr ?b2"
    by (rule cleanup_workers_none_expired)
  have r2: "map (map_of (registry ?b2)) (workers ?s2) = map Some [?wd]"
    by (simp add: update_conv')
  have z: "list_all (\<lambda>w. wd_type w = Zmq) [?wd]"
    by (simp add: WorkerData_init_def)
  from dispatch_loop_fifo [OF s2 r2 _ z, of c]
  obtain b2 where b2: "dispatch_loop c sn ?s2 ?b2 = Inr b2"
    "sent b2 = sent ?b2 @ map (\<lambda>(req, w). WorkerRequest req (unwrap_id c w))
                            (zip (pending_requests ?s2) [?wd])"
    "map_of (services b2) =
          (map_of (services ?b2))(sn \<mapsto> ?s2
             \<lparr>pending_requests := drop (length [?wd]) (pending_requests ?s2),
              workers := drop (length (pending_requests ?s2)) (workers ?s2)\<rparr>)"
    by auto
  have ts: "the_service sn (services ?b1) = ?s1"
    using s1 by (rule the_service_map_of)
  have "on_event_ready c t t' ?b1 worker_id [sn] = dispatch_requests c t' sn ?b2"
    using assms(1) ts by (simp add: on_event_ready_def Let_def)
  also have "\<dots> = Inr b2"
    using s2 c2 b2(1) by (simp add: dispatch_requests_def)
  finally have ready: "on_event_ready c t t' ?b1 worker_id [sn] = Inr b2" .
  have z1: "zip ?ps [?wd] = [(hd ?ps, ?wd)]"
    by (cases "pending_requests (the_service sn (services b))") simp_all
  have d: "drop (length [?wd]) (pending_requests ?s2) = tl ?ps"
    by (cases "pending_requests (the_service sn (services b))") simp_all
  have w0: "drop (length (pending_requests ?s2)) (workers ?s2) = []"
    by simp
  from b2(3) have "map_of (services b2) sn =
      Some (?s2\<lparr>pending_requests := drop (length [?wd]) (pending_requests ?s2),
              workers := drop (length (pending_requests ?s2)) (workers ?s2)\<rparr>)"
    by (simp only: fun_upd_same)
  then have "map_of (services b2) sn =
      Some (?s2\<lparr>pending_requests := tl ?ps, workers := []\<rparr>)"
    by (simp only: d w0)
  then have p2: "pending_requests (the_service sn (services b2)) = tl ?ps"
    "workers (the_service sn (services b2)) = []"
    by (simp_all add: the_service_map_of)
  from b2(2) z1 have snt: "sent b2 = sent b @ [WorkerRequest (hd ?ps) (unwrap_id c ?wd)]"
    by simp
  from hc ts ready snt p2 show ?thesis
    by auto
qed

theorem request_waits_for_ready_worker_witness:
  "workers (the_service ''echo'' (services Broker_default)) = []
   \<and> pending_requests (the_service ''echo'' (services Broker_default)) = []
   \<and> registry Broker_default = []
   \<and> (1::int) < 1 + ttl mdp_example
   \<and> handle_client mdp_example 0 Broker_default ''c1'' [''echo'', ''hi''] = Inr echo_queued
   \<and> pending echo_queued = [(''echo'', [EventWorkerRequest ''hi'' ''c1''])]
   \<and> sent echo_queued = []
   \<and> sent (state_of (on_event_ready mdp_example 1 1 echo_queued ''w1'' [''echo''])) =
       [WorkerRequest (EventWorkerRequest ''hi'' ''c1'') ''w1'']
   \<and> pending (state_of (on_event_ready mdp_example 1 1 echo_queued ''w1'' [''echo''])) =
       [(''echo'', [])]
   \<and> workers (the_service ''echo'' (services older_request)) = []
   \<and> registry older_request = []
   \<and> handle_client mdp_example 1 older_request ''c1'' [''echo'', ''hi''] = Inr older_and_new
   \<and> sent (state_of (on_event_ready mdp_example 2 2 older_and_new ''w1'' [''echo''])) =
       [WorkerRequest (EventWorkerRequest ''old'' ''c0'') ''w1'']"
proof -
  have h1: "workers (the_service ''echo'' (services Broker_default)) = []"
    by code_simp
  have h2: "pending_requests (the_service ''echo'' (services Broker_default)) = []"
    by code_simp
  have r: "registry Broker_default = []"
    by code_simp
  then have h3: "\<forall>kw \<in> set (registry Broker_default).
      0 < expires_at (snd kw) \<and> 1 < expires_at (snd kw)"
    by simp
  have h4: "(1::int) < 1 + ttl mdp_example"
    by code_simp
  have s: "sent Broker_default = []"
    by code_simp
  have u: "unwrap_id mdp_example (WorkerData_init mdp_example Zmq ''w1'' ''echo'' 1 None
             (1 + ttl mdp_example)) = ''w1''"
    by code_simp
  from request_waits_for_ready_worker [OF h1 h3 h4, of "''c1''" "''hi''" "''w1''"] h2
  obtain b1 b2 where
    b1: "handle_client mdp_example 0 Broker_default ''c1'' [''echo'', ''hi''] = Inr b1" and
    b2: "on_event_ready mdp_example 1 1 b1 ''w1'' [''echo''] = Inr b2" and
    snt: "sent b2 = sent Broker_default @ [WorkerRequest (EventWorkerRequest ''hi'' ''c1'')
       (unwrap_id mdp_example (WorkerData_init mdp_example Zmq ''w1'' ''echo'' 1 None
             (1 + ttl mdp_example)))]"
    by blast
  from b1 have e: "echo_queued = b1"
    by (simp add: echo_queued_def state_of_def)
  with b2 snt s u
  have a: "sent (state_of (on_event_ready mdp_example 1 1 echo_queued ''w1'' [''echo''])) =
       [WorkerRequest (EventWorkerRequest ''hi'' ''c1'') ''w1'']"
    by (simp add: state_of_def)
  have p: "pending echo_queued = [(''echo'', [EventWorkerRequest ''hi'' ''c1''])]"
    "sent echo_queued = []"
    "pending (state_of (on_event_ready mdp_example 1 1 echo_queued ''w1'' [''echo''])) =
       [(''echo'', [])]"
    by code_simp+
  have g1: "workers (the_service ''echo'' (services older_request)) = []"
    by code_simp
  have g2: "registry older_request = []"
    by code_simp
  then have g3: "\<forall>kw \<in> set (registry older_request).
      1 < expires_at (snd kw) \<and> 2 < expires_at (snd kw)"
    by simp
  have g4: "(2::int) < 2 + ttl mdp_example"
    by code_simp
  have o: "handle_client mdp_example 1 older_request ''c1'' [''echo'', ''hi''] = Inr older_and_new"
    by code_simp
  have so: "sent older_request = []"
    "hd (pending_requests (the_service ''echo'' (services older_and_new))) =
       EventWorkerRequest ''old'' ''c0''"
    "unwrap_id mdp_example (WorkerData_init mdp_example Zmq ''w1'' ''echo'' 2 None
             (2 + ttl mdp_example)) = ''w1''"
    by code_simp+
  from request_waits_for_ready_worker [OF g1 g3 g4, of "''c1''" "''hi''" "''w1''"] o
  obtain b3 where
    b3: "on_event_ready mdp_example 2 2 older_and_new ''w1'' [''echo''] = Inr b3" and
    snt3: "sent b3 = sent older_request @
       [WorkerRequest (hd (pending_requests (the_service ''echo'' (services older_and_new))))
       (unwrap_id mdp_example (WorkerData_init mdp_example Zmq ''w1'' ''echo'' 2 None
             (2 + ttl mdp_example)))]"
    by auto
  then have c: "sent (state_of (on_event_ready mdp_example 2 2 older_and_new ''w1'' [''echo''])) =
       [WorkerRequest (EventWorkerRequest ''old'' ''c0'') ''w1'']"
    by (simp add: state_of_def so)
  from h1 h2 r h4 b1 e a p g1 g2 o c show ?thesis
    by simp
qed

end
